theory Spec2Isabelle
  imports Complex_Main
begin

section \<open>Digital products store: order placement and download resolution\<close>

text \<open>
  A shallow embedding of the two request handlers of \<^verbatim>\<open>src/main.py\<close> that carry
  logic: \<^verbatim>\<open>create_order\<close> (POST /api/orders) and \<^verbatim>\<open>resolve_download\<close>
  (GET /api/download/{token}).

  Every handler takes the database and returns its result together with the database
  it leaves behind. An exception raised by the Python is the \<open>Inl\<close> branch of the
  result.
\<close>

subsection \<open>Values, exceptions and library functions\<close>

text \<open>
  An \<^verbatim>\<open>ObjectId\<close> is a 12-byte number. A \<^verbatim>\<open>datetime\<close> is the number of
  microseconds that its wall-clock fields are after the epoch; the handlers only ever
  compare datetimes after \<^verbatim>\<open>.replace(tzinfo=timezone.utc)\<close>, which keeps the
  wall-clock fields and drops any offset.
\<close>

type_synonym oid = nat
type_synonym datetime = int

datatype exn =
    HTTPException nat string
  | ValueError string
  | TypeError string
  | KeyError string
  | ValidationError string
  | RequestValidationError

text \<open>The \<^verbatim>\<open>status_code\<close> of an \<^verbatim>\<open>HTTPException\<close>; no other exception has one.\<close>

fun status_code :: "exn \<Rightarrow> nat option" where
  "status_code (HTTPException code detail) = Some code"
| "status_code _ = None"

text \<open>
  The library functions the handlers call are parameters of the model: the
  \<^verbatim>\<open>bson\<close> parser and printer of ObjectIds, \<^verbatim>\<open>datetime.fromisoformat\<close> and
  \<^verbatim>\<open>datetime.isoformat\<close>, pydantic's coercion of a string to a datetime, and the
  arithmetic of Python's \<^verbatim>\<open>float\<close> (the type \<open>'f\<close>): \<^verbatim>\<open>0.0\<close>, \<^verbatim>\<open>+\<close>,
  \<^verbatim>\<open>float * int\<close> and \<^verbatim>\<open>round(_, 2)\<close>. A parser returns \<open>None\<close> where the
  Python raises.
\<close>

record 'f externals =
  ObjectId_of_str :: "string \<Rightarrow> oid option"
  str_of_ObjectId :: "oid \<Rightarrow> string"
  fromisoformat :: "string \<Rightarrow> datetime option"
  isoformat :: "datetime \<Rightarrow> string"
  pydantic_datetime :: "string \<Rightarrow> datetime option"
  float_zero :: "'f"
  float_add :: "'f \<Rightarrow> 'f \<Rightarrow> 'f"
  float_mul_int :: "'f \<Rightarrow> int \<Rightarrow> 'f"
  round2 :: "'f \<Rightarrow> 'f"

text \<open>
  What a request draws from its environment: the successive readings of
  \<^verbatim>\<open>datetime.now(timezone.utc)\<close> and the successive results of
  \<^verbatim>\<open>secrets.token_urlsafe(24)\<close>, numbered from 0 in the order of the calls.
\<close>

record request_env =
  utcnow :: "nat \<Rightarrow> datetime"
  token_urlsafe :: "nat \<Rightarrow> string"

text \<open>\<^verbatim>\<open>timedelta(days=n)\<close>, in microseconds.\<close>

definition timedelta_days :: "int \<Rightarrow> int" where
  "timedelta_days n = n * 24 * 60 * 60 * 1000000"

subsection \<open>Schemas and stored documents\<close>

record CartItem =
  product_id :: string
  quantity :: int

record OrderIn =
  customer_name :: string
  customer_email :: string
  items :: "CartItem list"

record DownloadLink =
  dl_product_id :: string
  dl_token :: string
  dl_expires_at :: datetime

record 'f Order =
  order_id :: string
  order_status :: string
  order_amount :: "'f"
  order_items :: "CartItem list"
  order_customer_name :: string
  order_customer_email :: string
  order_download_links :: "DownloadLink list"
  order_created_at :: datetime

text \<open>
  The value stored under \<^verbatim>\<open>expires_at\<close> in a download link of an order document:
  the key may be absent (\<open>None\<close>), and its value may be null, a datetime or a string.
\<close>

datatype bson_value = Null | Datetime datetime | Str string

record link_doc =
  link_product_id :: string
  link_token :: string
  link_expires_at :: "bson_value option"

record 'f order_doc =
  doc_status :: string
  doc_amount :: "'f"
  doc_items :: "CartItem list"
  doc_customer_name :: string
  doc_customer_email :: string
  doc_download_links :: "link_doc list"
  doc_created_at :: "datetime option"

record 'f product_doc =
  prod_title :: string
  prod_description :: "string option"
  prod_price :: "'f option"
  prod_thumbnail_url :: "string option"
  prod_file_url :: "string option"
  prod_created_at :: "datetime option"

text \<open>The collections \<^verbatim>\<open>product\<close> and \<^verbatim>\<open>order\<close>, each in insertion order.\<close>

record 'f database =
  product_coll :: "(oid \<times> 'f product_doc) list"
  order_coll :: "(oid \<times> 'f order_doc) list"

subsection \<open>The document store\<close>

text \<open>
  Modelled from the spec: the module \<^verbatim>\<open>database\<close> (\<^verbatim>\<open>db\<close>,
  \<^verbatim>\<open>create_document\<close>) is not among the sources. The spec describes a wrapper
  exposing \<^verbatim>\<open>create(collection, data) -> id\<close> that persists "a single new
  document" with "its assigned id and persisted created_at", the identifiers being
  "store-native opaque ids". The id assigned is one no document of the collection
  has; the caller parses the returned string back with \<^verbatim>\<open>ObjectId(new_id)\<close>, which
  gives the id itself.
\<close>

definition fresh_oid :: "oid list \<Rightarrow> oid" where
  "fresh_oid ids = Suc (foldr max ids 0)"

definition create_document_order ::
  "datetime \<Rightarrow> 'f order_doc \<Rightarrow> 'f database \<Rightarrow> oid \<times> 'f database" where
  "create_document_order stamp data db =
     (let new_id = fresh_oid (map fst (order_coll db))
      in (new_id,
          db\<lparr>order_coll := order_coll db @ [(new_id, data\<lparr>doc_created_at := Some stamp\<rparr>)]\<rparr>))"

text \<open>\<^verbatim>\<open>db[coll].find_one({"_id": i})\<close>: the document of that id, if any.\<close>

definition find_one_id :: "(oid \<times> 'd) list \<Rightarrow> oid \<Rightarrow> 'd option" where
  "find_one_id coll i = map_of coll i"

text \<open>
  \<^verbatim>\<open>db["order"].find_one({"download_links.token": token})\<close>: the first order
  document one of whose download links has that token.
\<close>

definition find_one_token :: "(oid \<times> 'f order_doc) list \<Rightarrow> string \<Rightarrow> 'f order_doc option" where
  "find_one_token coll token =
     map_option snd
       (List.find (\<lambda>d. list_ex (\<lambda>dl. link_token dl = token) (doc_download_links (snd d))) coll)"

subsection \<open>Helpers\<close>

definition PyObjectId_validate :: "'f externals \<Rightarrow> string \<Rightarrow> exn + oid" where
  "PyObjectId_validate X v =
     (case ObjectId_of_str X v of
        Some i \<Rightarrow> Inr i
      | None \<Rightarrow> Inl (ValueError ''Invalid ObjectId''))"

text \<open>A list comprehension whose element expression may raise.\<close>

fun map_exn :: "('a \<Rightarrow> exn + 'b) \<Rightarrow> 'a list \<Rightarrow> exn + 'b list" where
  "map_exn f [] = Inr []"
| "map_exn f (x # xs) =
     (case f x of
        Inl e \<Rightarrow> Inl e
      | Inr y \<Rightarrow> (case map_exn f xs of Inl e \<Rightarrow> Inl e | Inr ys \<Rightarrow> Inr (y # ys)))"

text \<open>
  The product of a successful \<^verbatim>\<open>resolve_download\<close>, after \<^verbatim>\<open>serialize_doc\<close>:
  \<^verbatim>\<open>_id\<close> becomes the string \<^verbatim>\<open>id\<close> and every datetime its ISO string.
\<close>

record 'f product_json =
  pj_id :: string
  pj_title :: string
  pj_description :: "string option"
  pj_price :: "'f option"
  pj_thumbnail_url :: "string option"
  pj_file_url :: "string option"
  pj_created_at :: "string option"

definition serialize_doc :: "'f externals \<Rightarrow> oid \<Rightarrow> 'f product_doc \<Rightarrow> 'f product_json" where
  "serialize_doc X i doc =
     \<lparr>pj_id = str_of_ObjectId X i,
      pj_title = prod_title doc,
      pj_description = prod_description doc,
      pj_price = prod_price doc,
      pj_thumbnail_url = prod_thumbnail_url doc,
      pj_file_url = prod_file_url doc,
      pj_created_at = map_option (isoformat X) (prod_created_at doc)\<rparr>"

subsection \<open>Request validation\<close>

text \<open>
  \<^verbatim>\<open>quantity: int = Field(1, ge=1, le=50)\<close> is the only constraint the schemas
  \<^verbatim>\<open>CartItem\<close> and \<^verbatim>\<open>OrderIn\<close> declare beyond the types of their fields.
\<close>

definition CartItem_valid :: "CartItem \<Rightarrow> bool" where
  "CartItem_valid i = (1 \<le> quantity i \<and> quantity i \<le> 50)"

definition OrderIn_valid :: "OrderIn \<Rightarrow> bool" where
  "OrderIn_valid payload = list_all CartItem_valid (items payload)"

text \<open>\<^verbatim>\<open>CartItem(**i)\<close> and \<^verbatim>\<open>DownloadLink(...)\<close> on the fields of a stored document.\<close>

definition CartItem_of_dict :: "CartItem \<Rightarrow> exn + CartItem" where
  "CartItem_of_dict i = (if CartItem_valid i then Inr i else Inl (ValidationError ''quantity''))"

definition DownloadLink_of_dict :: "'f externals \<Rightarrow> link_doc \<Rightarrow> exn + DownloadLink" where
  "DownloadLink_of_dict X dl =
     (case link_expires_at dl of
        None \<Rightarrow> Inl (KeyError ''expires_at'')
      | Some Null \<Rightarrow> Inl (ValidationError ''expires_at'')
      | Some (Datetime d) \<Rightarrow>
          Inr \<lparr>dl_product_id = link_product_id dl, dl_token = link_token dl, dl_expires_at = d\<rparr>
      | Some (Str s) \<Rightarrow>
          (case pydantic_datetime X s of
             None \<Rightarrow> Inl (ValidationError ''expires_at'')
           | Some d \<Rightarrow>
               Inr \<lparr>dl_product_id = link_product_id dl, dl_token = link_token dl,
                    dl_expires_at = d\<rparr>))"

subsection \<open>create_order\<close>

text \<open>
  The first loop of \<^verbatim>\<open>create_order\<close>: look every item's product up, add
  \<^verbatim>\<open>price * quantity\<close> to the running total and collect the item. It raises at the
  first item whose id does not parse or whose product is missing.
\<close>

fun validate_items ::
  "'f externals \<Rightarrow> 'f database \<Rightarrow> CartItem list \<Rightarrow> 'f \<Rightarrow> CartItem list
     \<Rightarrow> exn + ('f \<times> CartItem list)" where
  "validate_items X db [] total' validated_items = Inr (total', validated_items)"
| "validate_items X db (item # rest) total' validated_items =
     (case PyObjectId_validate X (product_id item) of
        Inl e \<Rightarrow> Inl e
      | Inr i \<Rightarrow>
          (case find_one_id (product_coll db) i of
             None \<Rightarrow> Inl (HTTPException 404 (''Product not found: '' @ product_id item))
           | Some prod_doc \<Rightarrow>
               (let price = (case prod_price prod_doc of None \<Rightarrow> float_zero X | Some p \<Rightarrow> p)
                in validate_items X db rest
                     (float_add X total' (float_mul_int X price (quantity item)))
                     (validated_items @ [item]))))"

text \<open>The second loop: one link per validated item, each with a token of its own draw.\<close>

fun mint_links :: "request_env \<Rightarrow> datetime \<Rightarrow> CartItem list \<Rightarrow> link_doc list \<Rightarrow> link_doc list" where
  "mint_links E expires_at [] download_links = download_links"
| "mint_links E expires_at (item # rest) download_links =
     (let token = token_urlsafe E (length download_links)
      in mint_links E expires_at rest
           (download_links @
              [\<lparr>link_product_id = product_id item, link_token = token,
                link_expires_at = Some (Datetime expires_at)\<rparr>]))"

text \<open>The \<^verbatim>\<open>Order\<close> built from the saved document.\<close>

definition Order_of_saved ::
  "'f externals \<Rightarrow> datetime \<Rightarrow> oid \<Rightarrow> 'f order_doc \<Rightarrow> exn + 'f Order" where
  "Order_of_saved X now i saved =
     (case map_exn CartItem_of_dict (doc_items saved) of
        Inl e \<Rightarrow> Inl e
      | Inr its \<Rightarrow>
          (case map_exn (DownloadLink_of_dict X) (doc_download_links saved) of
             Inl e \<Rightarrow> Inl e
           | Inr dls \<Rightarrow>
               Inr \<lparr>order_id = str_of_ObjectId X i,
                    order_status = doc_status saved,
                    order_amount = doc_amount saved,
                    order_items = its,
                    order_customer_name = doc_customer_name saved,
                    order_customer_email = doc_customer_email saved,
                    order_download_links = dls,
                    order_created_at =
                      (case doc_created_at saved of Some c \<Rightarrow> c | None \<Rightarrow> now)\<rparr>))"

definition create_order ::
  "'f externals \<Rightarrow> request_env \<Rightarrow> OrderIn \<Rightarrow> 'f database
     \<Rightarrow> (exn + 'f Order) \<times> 'f database" where
  "create_order X E payload db =
     (case validate_items X db (items payload) (float_zero X) [] of
        Inl e \<Rightarrow> (Inl e, db)
      | Inr (total', validated_items) \<Rightarrow>
          (let status = ''paid'';
               expires_at = utcnow E 0 + timedelta_days 7;
               download_links = mint_links E expires_at validated_items [];
               order_doc =
                 \<lparr>doc_status = status,
                  doc_amount = round2 X total',
                  doc_items = validated_items,
                  doc_customer_name = customer_name payload,
                  doc_customer_email = customer_email payload,
                  doc_download_links = download_links,
                  doc_created_at = None\<rparr>;
               (new_id, db') = create_document_order (utcnow E 1) order_doc db
           in (case find_one_id (order_coll db') new_id of
                 None \<Rightarrow> (Inl (TypeError ''NoneType object is not subscriptable''), db')
               | Some saved \<Rightarrow> (Order_of_saved X (utcnow E 2) new_id saved, db'))))"

text \<open>
  The route POST /api/orders: the framework validates the body against
  \<^verbatim>\<open>OrderIn\<close> and answers 422 without calling the handler when it does not fit.
\<close>

definition post_api_orders ::
  "'f externals \<Rightarrow> request_env \<Rightarrow> OrderIn \<Rightarrow> 'f database
     \<Rightarrow> (exn + 'f Order) \<times> 'f database" where
  "post_api_orders X E payload db =
     (if OrderIn_valid payload then create_order X E payload db
      else (Inl RequestValidationError, db))"

subsection \<open>resolve_download\<close>

record 'f download_response =
  resp_product :: "'f product_json"
  resp_file_url :: string
  resp_message :: string

text \<open>
  The expiry check. \<^verbatim>\<open>link.get("expires_at")\<close> is \<^verbatim>\<open>None\<close> for an absent key
  and for null; a string is replaced by its parse when it has one; then
  \<^verbatim>\<open>expires_at and now > expires_at.replace(tzinfo=timezone.utc)\<close>: a falsy value
  (\<^verbatim>\<open>None\<close>, the empty string) skips the comparison, and on a non-empty string
  \<^verbatim>\<open>str.replace\<close> refuses the keyword argument.
\<close>

definition check_expiry :: "'f externals \<Rightarrow> datetime \<Rightarrow> link_doc \<Rightarrow> exn option" where
  "check_expiry X now link =
     (let expires_at = (case link_expires_at link of None \<Rightarrow> Null | Some v \<Rightarrow> v);
          expires_at =
            (case expires_at of
               Str s \<Rightarrow> (case fromisoformat X s of Some d \<Rightarrow> Datetime d | None \<Rightarrow> Str s)
             | v \<Rightarrow> v)
      in case expires_at of
           Null \<Rightarrow> None
         | Datetime d \<Rightarrow> if now > d then Some (HTTPException 410 ''Link expired'') else None
         | Str s \<Rightarrow>
             if s = [] then None
             else Some (TypeError ''str.replace() takes no keyword arguments''))"

definition resolve_download ::
  "'f externals \<Rightarrow> request_env \<Rightarrow> string \<Rightarrow> 'f database
     \<Rightarrow> (exn + 'f download_response) \<times> 'f database" where
  "resolve_download X E token db =
     (case find_one_token (order_coll db) token of
        None \<Rightarrow> (Inl (HTTPException 404 ''Invalid token''), db)
      | Some order_doc \<Rightarrow>
          (case List.find (\<lambda>dl. link_token dl = token) (doc_download_links order_doc) of
             None \<Rightarrow> (Inl (HTTPException 404 ''Download not found''), db)
           | Some link \<Rightarrow>
               (case check_expiry X (utcnow E 0) link of
                  Some e \<Rightarrow> (Inl e, db)
                | None \<Rightarrow>
                    (case PyObjectId_validate X (link_product_id link) of
                       Inl e \<Rightarrow> (Inl e, db)
                     | Inr i \<Rightarrow>
                         (case find_one_id (product_coll db) i of
                            None \<Rightarrow> (Inl (HTTPException 404 ''Product not found''), db)
                          | Some prod_doc \<Rightarrow>
                              (case prod_file_url prod_doc of
                                 None \<Rightarrow>
                                   (Inl (HTTPException 404
                                      ''File not available for this product''), db)
                               | Some file_url \<Rightarrow>
                                   if file_url = [] then
                                     (Inl (HTTPException 404
                                        ''File not available for this product''), db)
                                   else
                                     (Inr \<lparr>resp_product = serialize_doc X i prod_doc,
                                           resp_file_url = file_url,
                                           resp_message = ''Direct your client to this URL to download the file. In production, stream the file from secure storage.''\<rparr>,
                                      db)))))))"

subsection \<open>Notions the properties are stated with\<close>

text \<open>
  The lookup \<^verbatim>\<open>create_order\<close> makes for one item, and the price it reads from the
  product found: \<^verbatim>\<open>float(prod.get("price", 0))\<close>.
\<close>

definition lookup_product :: "'f externals \<Rightarrow> 'f database \<Rightarrow> CartItem \<Rightarrow> 'f product_doc option" where
  "lookup_product X db item =
     (case ObjectId_of_str X (product_id item) of
        None \<Rightarrow> None
      | Some i \<Rightarrow> find_one_id (product_coll db) i)"

definition price_read :: "'f externals \<Rightarrow> 'f database \<Rightarrow> CartItem \<Rightarrow> 'f" where
  "price_read X db item =
     (case lookup_product X db item of
        None \<Rightarrow> float_zero X
      | Some prod_doc \<Rightarrow> (case prod_price prod_doc of None \<Rightarrow> float_zero X | Some p \<Rightarrow> p))"

text \<open>
  The spec's \<open>\<Sigma> price_i * quantity_i\<close> over the items of a cart, in float arithmetic:
  the terms are added in the order of the items, starting from \<^verbatim>\<open>0.0\<close>.
\<close>

definition cart_total :: "'f externals \<Rightarrow> 'f database \<Rightarrow> CartItem list \<Rightarrow> 'f" where
  "cart_total X db its =
     foldl (\<lambda>t it. float_add X t (float_mul_int X (price_read X db it) (quantity it)))
       (float_zero X) its"

text \<open>The link minted for the item at position \<open>k\<close> of the cart.\<close>

definition minted_link :: "request_env \<Rightarrow> datetime \<Rightarrow> nat \<Rightarrow> CartItem \<Rightarrow> link_doc" where
  "minted_link E expires_at k item =
     \<lparr>link_product_id = product_id item, link_token = token_urlsafe E k,
      link_expires_at = Some (Datetime expires_at)\<rparr>"

text \<open>Every download link of every stored order, in the order of the store.\<close>

definition stored_links :: "'f database \<Rightarrow> link_doc list" where
  "stored_links db = concat (map (\<lambda>d. doc_download_links (snd d)) (order_coll db))"

text \<open>
  The link \<^verbatim>\<open>resolve_download\<close> works with: the one its loop finds in the order its
  query returns.
\<close>

definition located_link :: "'f database \<Rightarrow> string \<Rightarrow> link_doc option" where
  "located_link db token =
     (case find_one_token (order_coll db) token of
        None \<Rightarrow> None
      | Some order_doc \<Rightarrow> List.find (\<lambda>dl. link_token dl = token) (doc_download_links order_doc))"

text \<open>
  The instant a stored link expires at, when its \<^verbatim>\<open>expires_at\<close> is a datetime or a
  string that parses as one.
\<close>

definition expiry_time :: "'f externals \<Rightarrow> link_doc \<Rightarrow> datetime option" where
  "expiry_time X link =
     (case link_expires_at link of
        Some (Datetime d) \<Rightarrow> Some d
      | Some (Str s) \<Rightarrow> fromisoformat X s
      | _ \<Rightarrow> None)"

text \<open>A request made no later than the expiry of the link its token locates, if any.\<close>

definition before_expiry :: "'f externals \<Rightarrow> 'f database \<Rightarrow> string \<Rightarrow> request_env \<Rightarrow> bool" where
  "before_expiry X db token E =
     (case located_link db token of
        None \<Rightarrow> True
      | Some link \<Rightarrow> (case expiry_time X link of None \<Rightarrow> True | Some d \<Rightarrow> utcnow E 0 \<le> d))"

text \<open>
  The document a successful \<^verbatim>\<open>create_order\<close> persists and the \<^verbatim>\<open>Order\<close> it returns,
  written out.
\<close>

definition order_saved :: "'f externals \<Rightarrow> request_env \<Rightarrow> OrderIn \<Rightarrow> 'f database \<Rightarrow> 'f order_doc" where
  "order_saved X E payload db =
     \<lparr>doc_status = ''paid'',
      doc_amount = round2 X (cart_total X db (items payload)),
      doc_items = items payload,
      doc_customer_name = customer_name payload,
      doc_customer_email = customer_email payload,
      doc_download_links =
        map (\<lambda>(k, it). minted_link E (utcnow E 0 + timedelta_days 7) k it)
          (zip [0 ..< length (items payload)] (items payload)),
      doc_created_at = Some (utcnow E 1)\<rparr>"

definition order_returned :: "'f externals \<Rightarrow> request_env \<Rightarrow> OrderIn \<Rightarrow> 'f database \<Rightarrow> 'f Order" where
  "order_returned X E payload db =
     \<lparr>order_id = str_of_ObjectId X (fresh_oid (map fst (order_coll db))),
      order_status = ''paid'',
      order_amount = round2 X (cart_total X db (items payload)),
      order_items = items payload,
      order_customer_name = customer_name payload,
      order_customer_email = customer_email payload,
      order_download_links =
        map (\<lambda>(k, it).
               \<lparr>dl_product_id = product_id it, dl_token = token_urlsafe E k,
                dl_expires_at = utcnow E 0 + timedelta_days 7\<rparr>)
          (zip [0 ..< length (items payload)] (items payload)),
      order_created_at = utcnow E 1\<rparr>"

subsection \<open>Example library functions and data\<close>

text \<open>
  An instance of the library functions for the examples: ObjectIds are read from and
  printed as 24 hexadecimal digits, exact decimal arithmetic on rationals stands for
  the float operations, and the ISO format is known for the two instants the examples
  use (2024-01-01 and 2024-01-08, midnight UTC).
\<close>

definition hex_digit :: "char \<Rightarrow> nat option" where
  "hex_digit c =
     (let n = (of_char c :: nat)
      in if 48 \<le> n \<and> n \<le> 57 then Some (n - 48)
         else if 97 \<le> n \<and> n \<le> 102 then Some (n - 87)
         else if 65 \<le> n \<and> n \<le> 70 then Some (n - 55)
         else None)"

fun hex_value :: "string \<Rightarrow> nat \<Rightarrow> nat option" where
  "hex_value [] acc = Some acc"
| "hex_value (c # cs) acc =
     (case hex_digit c of None \<Rightarrow> None | Some d \<Rightarrow> hex_value cs (16 * acc + d))"

definition ObjectId_hex :: "string \<Rightarrow> oid option" where
  "ObjectId_hex s = (if length s = 24 then hex_value s 0 else None)"

definition hex_char :: "nat \<Rightarrow> char" where
  "hex_char d = ''0123456789abcdef'' ! (d mod 16)"

definition hex_str24 :: "nat \<Rightarrow> string" where
  "hex_str24 n =
     map (\<lambda>j. hex_char (n div 16 ^ j))
       [23, 22, 21, 20, 19, 18, 17, 16, 15, 14, 13, 12, 11, 10, 9, 8, 7, 6, 5, 4, 3, 2, 1, 0]"

definition iso_table :: "(string \<times> datetime) list" where
  "iso_table =
     [(''2024-01-01T00:00:00'', 1704067200000000),
      (''2024-01-08T00:00:00'', 1704672000000000)]"

definition isoformat_ex :: "datetime \<Rightarrow> string" where
  "isoformat_ex d = (case map_of (map (\<lambda>(s, t). (t, s)) iso_table) d of Some s \<Rightarrow> s | None \<Rightarrow> [])"

definition round2_decimal :: "rat \<Rightarrow> rat" where
  "round2_decimal x = of_int (round (x * 100)) / 100"

definition X0 :: "rat externals" where
  "X0 =
     \<lparr>ObjectId_of_str = ObjectId_hex,
      str_of_ObjectId = hex_str24,
      fromisoformat = map_of iso_table,
      isoformat = isoformat_ex,
      pydantic_datetime = map_of iso_table,
      float_zero = 0,
      float_add = (+),
      float_mul_int = (\<lambda>x n. x * of_int n),
      round2 = round2_decimal\<rparr>"

text \<open>A request arriving on 2024-01-01 at midnight, and one arriving ten days later.\<close>

definition E0 :: request_env where
  "E0 =
     \<lparr>utcnow = (\<lambda>k. 1704067200000000 + int k),
      token_urlsafe =
        (\<lambda>k. ''q7Hk2mVx9LdPzR4tYw8NcB3sUeJ6a'' @ [hex_char (k div 16), hex_char k])\<rparr>"

definition E_late :: request_env where
  "E_late =
     \<lparr>utcnow = (\<lambda>k. 1704931200000000 + int k),
      token_urlsafe = (\<lambda>k. ''Xp2Lw9ZkQ4vT7nRb1YcD5mHs8Jf3Ga0-'')\<rparr>"

text \<open>
  The catalog: an e-book at 9.99 with a file, under the id
  \<^verbatim>\<open>507f1f77bcf86cd799439011\<close>, and a draft without a file, under
  \<^verbatim>\<open>507f191e810c19729de860ea\<close>. No product has the id
  \<^verbatim>\<open>65a1b2c3d4e5f60718293a4b\<close>.
\<close>

definition ebook :: "rat product_doc" where
  "ebook =
     \<lparr>prod_title = ''Ebook'', prod_description = None, prod_price = Some (999 / 100),
      prod_thumbnail_url = None, prod_file_url = Some ''https://x/e.pdf'',
      prod_created_at = Some 1704067200000000\<rparr>"

definition draft :: "rat product_doc" where
  "draft =
     \<lparr>prod_title = ''Draft'', prod_description = None, prod_price = Some 5,
      prod_thumbnail_url = None, prod_file_url = None,
      prod_created_at = Some 1704067200000000\<rparr>"

definition db0 :: "rat database" where
  "db0 =
     \<lparr>product_coll =
        [(24912482966938930280208240657, ebook), (24912452986661892666266509546, draft)],
      order_coll = []\<rparr>"

text \<open>
  A store with one order of five links: one for the e-book, one for the draft, one
  whose product id is no ObjectId, one whose \<^verbatim>\<open>expires_at\<close> is a string that is
  no ISO timestamp, and one for a product that is gone. The others expire on
  2024-01-08 at midnight.
\<close>

definition link_ebook :: link_doc where
  "link_ebook =
     \<lparr>link_product_id = ''507f1f77bcf86cd799439011'',
      link_token = ''tA3kQ9xZr7LmP2vWc8YbN5dHs1JfG6e0'',
      link_expires_at = Some (Datetime 1704672000000000)\<rparr>"

definition link_draft :: link_doc where
  "link_draft =
     \<lparr>link_product_id = ''507f191e810c19729de860ea'',
      link_token = ''tB7mW2cYp4RnK9zXq1LvD8bHs6JfG3e5'',
      link_expires_at = Some (Datetime 1704672000000000)\<rparr>"

definition link_bad_id :: link_doc where
  "link_bad_id =
     \<lparr>link_product_id = ''not-an-object-id'',
      link_token = ''tC5vR8nKd2YpW4mXz9LqB1cHs7JfG0e6'',
      link_expires_at = Some (Datetime 1704672000000000)\<rparr>"

definition link_bad_expiry :: link_doc where
  "link_bad_expiry =
     \<lparr>link_product_id = ''507f1f77bcf86cd799439011'',
      link_token = ''tD1zX6qLb9KnR3vWm7YpC4dHs2JfG8e5'',
      link_expires_at = Some (Str ''next week'')\<rparr>"

definition link_gone :: link_doc where
  "link_gone =
     \<lparr>link_product_id = ''65a1b2c3d4e5f60718293a4b'',
      link_token = ''tE9pL4wQc6ZnV1xRk8YmB2dHs5JfG7e3'',
      link_expires_at = Some (Datetime 1704672000000000)\<rparr>"

definition db1 :: "rat database" where
  "db1 =
     db0\<lparr>order_coll :=
       [(1,
         \<lparr>doc_status = ''paid'', doc_amount = 2498 / 100,
          doc_items =
            [\<lparr>product_id = ''507f1f77bcf86cd799439011'', quantity = 2\<rparr>,
             \<lparr>product_id = ''507f191e810c19729de860ea'', quantity = 1\<rparr>],
          doc_customer_name = ''Ada'', doc_customer_email = ''ada@example.org'',
          doc_download_links = [link_ebook, link_draft, link_bad_id, link_bad_expiry, link_gone],
          doc_created_at = Some 1704067200000000\<rparr>)]\<rparr>"

section \<open>Properties\<close>

subsection \<open>The store and the loops\<close>

lemma fresh_oid_upper: "i \<in> set ids \<Longrightarrow> i < fresh_oid ids"
  unfolding fresh_oid_def by (induction ids) auto

lemma fresh_oid_notin: "fresh_oid ids \<notin> set ids"
  using fresh_oid_upper by blast

lemma find_one_id_append_fresh:
  "i \<notin> fst ` set coll \<Longrightarrow> find_one_id (coll @ [(i, d)]) i = Some d"
proof -
  assume "i \<notin> fst ` set coll"
  then have "map_of coll i = None"
    by (simp add: map_of_eq_None_iff)
  then show ?thesis
    by (simp add: find_one_id_def map_add_def)
qed

text \<open>The document just created is the one its id finds.\<close>

lemma find_created:
  "find_one_id (order_coll (snd (create_document_order stamp d db)))
     (fst (create_document_order stamp d db)) = Some (d\<lparr>doc_created_at := Some stamp\<rparr>)"
proof -
  have "fresh_oid (map fst (order_coll db)) \<notin> fst ` set (order_coll db)"
    using fresh_oid_notin [of "map fst (order_coll db)"] by simp
  then show ?thesis
    by (simp add: create_document_order_def Let_def find_one_id_append_fresh)
qed

text \<open>The first loop, one item at a time.\<close>

lemma validate_items_step:
  "lookup_product X db item = Some pd \<Longrightarrow>
   validate_items X db (item # rest) t acc =
     validate_items X db rest
       (float_add X t (float_mul_int X (price_read X db item) (quantity item))) (acc @ [item])"
  by (auto simp: lookup_product_def price_read_def PyObjectId_validate_def split: option.splits)

lemma validate_items_stop:
  "lookup_product X db item = None \<Longrightarrow> \<exists>e. validate_items X db (item # rest) t acc = Inl e"
  by (auto simp: lookup_product_def PyObjectId_validate_def split: option.splits)

lemma validate_items_prefix:
  "\<forall>it\<in>set pre. lookup_product X db it \<noteq> None \<Longrightarrow>
   validate_items X db (pre @ rest) t acc =
     validate_items X db rest
       (foldl (\<lambda>t it. float_add X t (float_mul_int X (price_read X db it) (quantity it))) t pre)
       (acc @ pre)"
proof (induction pre arbitrary: t acc)
  case Nil
  then show ?case by simp
next
  case (Cons a pre)
  from Cons.prems obtain pd where pd: "lookup_product X db a = Some pd" by auto
  from Cons.prems have rest: "\<forall>it\<in>set pre. lookup_product X db it \<noteq> None" by simp
  show ?case
    using validate_items_step [OF pd, of "pre @ rest" t acc] Cons.IH [OF rest] by simp
qed

lemma validate_items_ok:
  "\<forall>it\<in>set its. lookup_product X db it \<noteq> None \<Longrightarrow>
   validate_items X db its t acc =
     Inr (foldl (\<lambda>t it. float_add X t (float_mul_int X (price_read X db it) (quantity it))) t its,
          acc @ its)"
  using validate_items_prefix [of its X db "[]" t acc] by simp

lemma validate_items_Inr_resolves:
  "validate_items X db its t acc = Inr r \<Longrightarrow> \<forall>it\<in>set its. lookup_product X db it \<noteq> None"
proof (induction its arbitrary: t acc)
  case Nil
  then show ?case by simp
next
  case (Cons a its)
  show ?case
  proof (cases "lookup_product X db a")
    case None
    with validate_items_stop [OF None, of its t acc] Cons.prems show ?thesis by simp
  next
    case (Some pd)
    from Cons.prems have
      "validate_items X db its
         (float_add X t (float_mul_int X (price_read X db a) (quantity a))) (acc @ [a]) = Inr r"
      unfolding validate_items_step [OF Some] .
    from Cons.IH [OF this] Some show ?thesis by simp
  qed
qed

lemma validate_items_error_kind:
  "validate_items X db its t acc = Inl e \<Longrightarrow>
   e = ValueError ''Invalid ObjectId'' \<or> (\<exists>s. e = HTTPException 404 s)"
  by (induction its arbitrary: t acc)
     (auto simp: Let_def PyObjectId_validate_def split: sum.splits option.splits)

text \<open>The second loop in closed form.\<close>

lemma mint_links_eq:
  "mint_links E x its acc =
     acc @ map (\<lambda>(k, it). minted_link E x k it) (zip [length acc ..< length acc + length its] its)"
proof (induction its arbitrary: acc)
  case Nil
  then show ?case by simp
next
  case (Cons a its)
  have "[length acc ..< length acc + length (a # its)] =
        length acc # [Suc (length acc) ..< Suc (length acc) + length its]"
    by (simp add: upt_rec)
  then show ?case
    by (simp add: Cons.IH Let_def minted_link_def)
qed

lemma map_exn_all_Inr:
  "\<forall>x\<in>set xs. f x = Inr (g x) \<Longrightarrow> map_exn f xs = Inr (map g xs)"
  by (induction xs) auto

lemma map_exn_Inl:
  "map_exn f xs = Inl e \<Longrightarrow> \<exists>x\<in>set xs. f x = Inl e"
  by (induction xs) (auto split: sum.splits)

text \<open>A valid request all of whose items resolve: what is persisted and returned.\<close>

lemma Order_of_saved_ok:
  assumes "list_all CartItem_valid (items p)"
  shows "Order_of_saved X now (fresh_oid (map fst (order_coll db))) (order_saved X E p db) =
           Inr (order_returned X E p db)"
proof -
  have a: "map_exn CartItem_of_dict (items p) = Inr (items p)"
    using map_exn_all_Inr [of "items p" CartItem_of_dict "\<lambda>x. x"] assms
    by (simp add: CartItem_of_dict_def list_all_iff)
  let ?x = "utcnow E 0 + timedelta_days 7"
  let ?ls = "map (\<lambda>(k, it). minted_link E ?x k it) (zip [0 ..< length (items p)] (items p))"
  have b: "map_exn (DownloadLink_of_dict X) ?ls =
             Inr (map (\<lambda>dl. \<lparr>dl_product_id = link_product_id dl, dl_token = link_token dl,
                              dl_expires_at = ?x\<rparr>) ?ls)"
    by (rule map_exn_all_Inr) (auto simp: DownloadLink_of_dict_def minted_link_def)
  have c: "map (\<lambda>dl. \<lparr>dl_product_id = link_product_id dl, dl_token = link_token dl,
                        dl_expires_at = ?x\<rparr>) ?ls =
           map (\<lambda>(k, it). \<lparr>dl_product_id = product_id it, dl_token = token_urlsafe E k,
                             dl_expires_at = ?x\<rparr>) (zip [0 ..< length (items p)] (items p))"
    by (simp add: minted_link_def case_prod_unfold comp_def)
  have d: "doc_items (order_saved X E p db) = items p"
    "doc_download_links (order_saved X E p db) = ?ls"
    by (simp_all add: order_saved_def)
  show ?thesis
    unfolding Order_of_saved_def d a b c
    by (simp add: order_saved_def order_returned_def)
qed

lemma create_order_ok:
  assumes valid: "OrderIn_valid p"
    and res: "\<forall>it\<in>set (items p). lookup_product X db it \<noteq> None"
  shows "create_order X E p db =
           (Inr (order_returned X E p db),
            db\<lparr>order_coll := order_coll db @
                 [(fresh_oid (map fst (order_coll db)), order_saved X E p db)]\<rparr>)"
proof -
  let ?doc = "\<lparr>doc_status = ''paid'',
      doc_amount = round2 X (cart_total X db (items p)),
      doc_items = items p,
      doc_customer_name = customer_name p,
      doc_customer_email = customer_email p,
      doc_download_links = mint_links E (utcnow E 0 + timedelta_days 7) (items p) [],
      doc_created_at = None\<rparr>"
  have v: "validate_items X db (items p) (float_zero X) [] =
             Inr (cart_total X db (items p), items p)"
    using validate_items_ok [OF res, of "float_zero X" "[]"] by (simp add: cart_total_def)
  have s: "?doc\<lparr>doc_created_at := Some (utcnow E 1)\<rparr> = order_saved X E p db"
    by (simp add: order_saved_def mint_links_eq)
  have f: "find_one_id (order_coll (snd (create_document_order (utcnow E 1) ?doc db)))
             (fst (create_document_order (utcnow E 1) ?doc db)) = Some (order_saved X E p db)"
    using find_created [of "utcnow E 1" ?doc db] s by simp
  have i: "fst (create_document_order (utcnow E 1) ?doc db) = fresh_oid (map fst (order_coll db))"
    by (simp add: create_document_order_def Let_def)
  have w: "snd (create_document_order (utcnow E 1) ?doc db) =
             db\<lparr>order_coll := order_coll db @
                  [(fresh_oid (map fst (order_coll db)), order_saved X E p db)]\<rparr>"
    using s by (simp add: create_document_order_def Let_def)
  have o: "Order_of_saved X (utcnow E 2) (fresh_oid (map fst (order_coll db)))
             (order_saved X E p db) = Inr (order_returned X E p db)"
    using Order_of_saved_ok valid by (simp add: OrderIn_valid_def)
  show ?thesis
    unfolding create_order_def v
    using f i w o by (simp add: Let_def case_prod_unfold)
qed

text \<open>The same for the route, and the converse: a request that succeeds was valid and
  all its items resolved.\<close>

lemma post_api_orders_ok:
  assumes "OrderIn_valid p" and "\<forall>it\<in>set (items p). lookup_product X db it \<noteq> None"
  shows "post_api_orders X E p db =
           (Inr (order_returned X E p db),
            db\<lparr>order_coll := order_coll db @
                 [(fresh_oid (map fst (order_coll db)), order_saved X E p db)]\<rparr>)"
  using assms create_order_ok [of p X db E] by (simp add: post_api_orders_def)

lemma post_api_orders_Inr:
  assumes "post_api_orders X E p db = (Inr ord, db')"
  shows "OrderIn_valid p \<and> (\<forall>it\<in>set (items p). lookup_product X db it \<noteq> None)"
proof -
  from assms have v: "OrderIn_valid p"
    by (auto simp: post_api_orders_def split: if_splits)
  with assms have c: "create_order X E p db = (Inr ord, db')"
    by (simp add: post_api_orders_def)
  then obtain r where "validate_items X db (items p) (float_zero X) [] = Inr r"
    by (cases "validate_items X db (items p) (float_zero X) []") (auto simp: create_order_def)
  from validate_items_Inr_resolves [OF this] v show ?thesis by simp
qed

lemma example_ids:
  "ObjectId_hex ''507f1f77bcf86cd799439011'' = Some 24912482966938930280208240657"
  "ObjectId_hex ''507f191e810c19729de860ea'' = Some 24912452986661892666266509546"
  "ObjectId_hex ''65a1b2c3d4e5f60718293a4b'' = Some 31453467242603790624579205707"
  "ObjectId_hex ''not-an-object-id'' = None"
  by (simp_all add: ObjectId_hex_def hex_digit_def)

text \<open>
  Where the first loop stops: at the first item that does not resolve, with the error of
  that item, and before anything is written.
\<close>

lemma post_api_orders_stops:
  assumes "OrderIn_valid p" and "items p = pre @ it # post"
    and "\<forall>x\<in>set pre. lookup_product X db x \<noteq> None"
  shows "post_api_orders X E p db =
           (case PyObjectId_validate X (product_id it) of
              Inl e \<Rightarrow> (Inl e, db)
            | Inr i \<Rightarrow>
                (case find_one_id (product_coll db) i of
                   None \<Rightarrow> (Inl (HTTPException 404 (''Product not found: '' @ product_id it)), db)
                 | Some pd \<Rightarrow> create_order X E p db))"
proof (cases "lookup_product X db it")
  case None
  have "validate_items X db (items p) (float_zero X) [] =
          validate_items X db (it # post)
            (foldl (\<lambda>t it. float_add X t (float_mul_int X (price_read X db it) (quantity it)))
               (float_zero X) pre) pre"
    using validate_items_prefix [OF assms(3), of "it # post" "float_zero X" "[]"] assms(2)
    by simp
  with None assms(1) show ?thesis
    by (auto simp: post_api_orders_def create_order_def lookup_product_def
        PyObjectId_validate_def split: option.splits)
next
  case (Some pd)
  with assms(1) show ?thesis
    by (auto simp: post_api_orders_def lookup_product_def PyObjectId_validate_def
        split: option.splits)
qed

text \<open>The handler itself never raises the error of the request validation.\<close>

lemma create_order_not_request_validation:
  "fst (create_order X E p db) \<noteq> Inl RequestValidationError"
proof (cases "validate_items X db (items p) (float_zero X) []")
  case (Inl e)
  with validate_items_error_kind [OF Inl] show ?thesis
    by (auto simp: create_order_def)
next
  case (Inr r)
  from validate_items_Inr_resolves [OF Inr]
  have res: "\<forall>it\<in>set (items p). lookup_product X db it \<noteq> None" .
  show ?thesis
  proof (cases "OrderIn_valid p")
    case True
    from create_order_ok [OF True res] show ?thesis by simp
  next
    case False
    obtain t v where r: "r = (t, v)" by (cases r)
    let ?saved = "\<lparr>doc_status = ''paid'', doc_amount = round2 X t, doc_items = v,
         doc_customer_name = customer_name p, doc_customer_email = customer_email p,
         doc_download_links = mint_links E (utcnow E 0 + timedelta_days 7) v [],
         doc_created_at = None\<rparr>"
    have f: "find_one_id (order_coll (snd (create_document_order (utcnow E 1) ?saved db)))
               (fst (create_document_order (utcnow E 1) ?saved db)) =
             Some (?saved\<lparr>doc_created_at := Some (utcnow E 1)\<rparr>)"
      by (rule find_created)
    have v: "v = items p"
      using validate_items_ok [OF res, of "float_zero X" "[]"] Inr r by simp
    from False have "\<not> list_all CartItem_valid v"
      by (simp add: OrderIn_valid_def v)
    then obtain x where "x \<in> set v" "\<not> CartItem_valid x"
      by (auto simp: list_all_iff)
    then have "\<exists>e. map_exn CartItem_of_dict v = Inl (ValidationError e)"
    proof (induction v)
      case Nil
      then show ?case by simp
    next
      case (Cons a v)
      then show ?case
        by (cases "CartItem_valid a") (auto simp: CartItem_of_dict_def split: sum.splits)
    qed
    then obtain e where "map_exn CartItem_of_dict v = Inl (ValidationError e)" by blast
    then have "Order_of_saved X now i (?saved\<lparr>doc_created_at := Some (utcnow E 1)\<rparr>) =
                 Inl (ValidationError e)" for now i
      by (simp add: Order_of_saved_def)
    with f Inr r show ?thesis
      by (simp add: create_order_def Let_def case_prod_unfold)
  qed
qed

subsection \<open>Placing an order\<close>

text \<open>
  C4. For every valid request each of whose items resolves to an existing product, the
  operation succeeds, and the amount of the order returned and of the order persisted
  is \<open>round2\<close> of the sum over the items, in their order, of the price read at the
  lookup times the quantity, in the float arithmetic of the source.
\<close>

theorem amount_is_rounded_total:
  assumes "OrderIn_valid p" and "\<forall>it\<in>set (items p). lookup_product X db it \<noteq> None"
  shows "\<exists>ord saved.
           post_api_orders X E p db =
             (Inr ord,
              db\<lparr>order_coll := order_coll db @ [(fresh_oid (map fst (order_coll db)), saved)]\<rparr>) \<and>
           order_amount ord = round2 X (cart_total X db (items p)) \<and>
           doc_amount saved = round2 X (cart_total X db (items p))"
proof (intro exI [of _ "order_returned X E p db"] exI [of _ "order_saved X E p db"] conjI)
  show "post_api_orders X E p db =
          (Inr (order_returned X E p db),
           db\<lparr>order_coll := order_coll db @
                [(fresh_oid (map fst (order_coll db)), order_saved X E p db)]\<rparr>)"
    by (rule post_api_orders_ok [OF assms])
  show "order_amount (order_returned X E p db) = round2 X (cart_total X db (items p))"
    by (simp add: order_returned_def)
  show "doc_amount (order_saved X E p db) = round2 X (cart_total X db (items p))"
    by (simp add: order_saved_def)
qed

text \<open>The scenario of the spec: two copies of the e-book at 9.99 come to 19.98.\<close>

theorem amount_is_rounded_total_witness:
  "\<exists>ord saved.
     post_api_orders X0 E0
       \<lparr>customer_name = ''Ada'', customer_email = ''ada@example.org'',
        items = [\<lparr>product_id = ''507f1f77bcf86cd799439011'', quantity = 2\<rparr>]\<rparr> db0 =
       (Inr ord, db0\<lparr>order_coll := [(1, saved)]\<rparr>) \<and>
     order_amount ord = 1998 / 100 \<and> doc_amount saved = 1998 / 100"
  using amount_is_rounded_total
    [of "\<lparr>customer_name = ''Ada'', customer_email = ''ada@example.org'',
         items = [\<lparr>product_id = ''507f1f77bcf86cd799439011'', quantity = 2\<rparr>]\<rparr>" X0 db0 E0]
  by (simp add: OrderIn_valid_def CartItem_valid_def lookup_product_def price_read_def
      cart_total_def find_one_id_def X0_def db0_def example_ids fresh_oid_def ebook_def
      round2_decimal_def)

text \<open>
  C8. A request with no items succeeds, whatever its customer strings: it persists, and
  returns, an order with status "paid", amount 0.0, no items and no download links.
  That \<^verbatim>\<open>round(0.0, 2)\<close> is \<^verbatim>\<open>0.0\<close> is the one fact of float arithmetic used.
\<close>

theorem empty_cart_accepted:
  assumes "items p = []" and "round2 X (float_zero X) = float_zero X"
  shows "post_api_orders X E p db =
           (Inr \<lparr>order_id = str_of_ObjectId X (fresh_oid (map fst (order_coll db))),
                 order_status = ''paid'', order_amount = float_zero X, order_items = [],
                 order_customer_name = customer_name p,
                 order_customer_email = customer_email p,
                 order_download_links = [], order_created_at = utcnow E 1\<rparr>,
            db\<lparr>order_coll := order_coll db @
                 [(fresh_oid (map fst (order_coll db)),
                   \<lparr>doc_status = ''paid'', doc_amount = float_zero X, doc_items = [],
                    doc_customer_name = customer_name p,
                    doc_customer_email = customer_email p,
                    doc_download_links = [], doc_created_at = Some (utcnow E 1)\<rparr>)]\<rparr>)"
proof -
  have "OrderIn_valid p" and "\<forall>it\<in>set (items p). lookup_product X db it \<noteq> None"
    using assms(1) by (simp_all add: OrderIn_valid_def)
  from post_api_orders_ok [OF this] assms show ?thesis
    by (simp add: order_returned_def order_saved_def cart_total_def)
qed

text \<open>The empty cart of a customer with an empty e-mail address, in a store that holds an order.\<close>

theorem empty_cart_accepted_witness:
  "post_api_orders X0 E0 \<lparr>customer_name = ''Ada'', customer_email = [], items = []\<rparr> db1 =
     (Inr \<lparr>order_id = ''000000000000000000000002'', order_status = ''paid'', order_amount = 0,
           order_items = [], order_customer_name = ''Ada'', order_customer_email = [],
           order_download_links = [], order_created_at = 1704067200000001\<rparr>,
      db1\<lparr>order_coll := order_coll db1 @
        [(2, \<lparr>doc_status = ''paid'', doc_amount = 0, doc_items = [],
              doc_customer_name = ''Ada'', doc_customer_email = [], doc_download_links = [],
              doc_created_at = Some 1704067200000001\<rparr>)]\<rparr>)"
  using empty_cart_accepted
    [of "\<lparr>customer_name = ''Ada'', customer_email = [], items = []\<rparr>" X0 E0 db1]
  by (simp add: X0_def E0_def db1_def db0_def fresh_oid_def round2_decimal_def hex_str24_def
      hex_char_def)

text \<open>
  C6. Every order a successful request returns has status "paid", the items of the
  request, and one download link per item, in the order of the items: the link at
  position \<open>k\<close> carries the product id of item \<open>k\<close> and expires seven days after the
  clock reading the handler took when it built the links.
\<close>

theorem successful_order_paid_one_link_per_item:
  assumes "post_api_orders X E p db = (Inr ord, db')"
  shows "order_status ord = ''paid'' \<and> order_items ord = items p \<and>
         length (order_download_links ord) = length (items p) \<and>
         (\<forall>k<length (items p).
            dl_product_id (order_download_links ord ! k) = product_id (items p ! k) \<and>
            dl_expires_at (order_download_links ord ! k) = utcnow E 0 + timedelta_days 7)"
proof -
  from post_api_orders_Inr [OF assms]
  have "post_api_orders X E p db =
          (Inr (order_returned X E p db),
           db\<lparr>order_coll := order_coll db @
                [(fresh_oid (map fst (order_coll db)), order_saved X E p db)]\<rparr>)"
    by (intro post_api_orders_ok) simp_all
  with assms have "ord = order_returned X E p db" by simp
  then show ?thesis by (simp add: order_returned_def)
qed

text \<open>
  Two copies of the e-book and one of the draft, ordered on 2024-01-01 at midnight: two
  links, both expiring on 2024-01-08 at midnight.
\<close>

theorem successful_order_paid_one_link_per_item_witness:
  "post_api_orders X0 E0
     \<lparr>customer_name = ''Ada'', customer_email = ''ada@example.org'',
      items = [\<lparr>product_id = ''507f1f77bcf86cd799439011'', quantity = 2\<rparr>,
               \<lparr>product_id = ''507f191e810c19729de860ea'', quantity = 1\<rparr>]\<rparr> db0 =
     (Inr \<lparr>order_id = ''000000000000000000000001'', order_status = ''paid'',
           order_amount = 2498 / 100,
           order_items = [\<lparr>product_id = ''507f1f77bcf86cd799439011'', quantity = 2\<rparr>,
                          \<lparr>product_id = ''507f191e810c19729de860ea'', quantity = 1\<rparr>],
           order_customer_name = ''Ada'', order_customer_email = ''ada@example.org'',
           order_download_links =
             [\<lparr>dl_product_id = ''507f1f77bcf86cd799439011'',
               dl_token = ''q7Hk2mVx9LdPzR4tYw8NcB3sUeJ6a00'',
               dl_expires_at = 1704672000000000\<rparr>,
              \<lparr>dl_product_id = ''507f191e810c19729de860ea'',
               dl_token = ''q7Hk2mVx9LdPzR4tYw8NcB3sUeJ6a01'',
               dl_expires_at = 1704672000000000\<rparr>],
           order_created_at = 1704067200000001\<rparr>,
      db0\<lparr>order_coll :=
        [(1, \<lparr>doc_status = ''paid'', doc_amount = 2498 / 100,
              doc_items = [\<lparr>product_id = ''507f1f77bcf86cd799439011'', quantity = 2\<rparr>,
                           \<lparr>product_id = ''507f191e810c19729de860ea'', quantity = 1\<rparr>],
              doc_customer_name = ''Ada'', doc_customer_email = ''ada@example.org'',
              doc_download_links =
                [\<lparr>link_product_id = ''507f1f77bcf86cd799439011'',
                  link_token = ''q7Hk2mVx9LdPzR4tYw8NcB3sUeJ6a00'',
                  link_expires_at = Some (Datetime 1704672000000000)\<rparr>,
                 \<lparr>link_product_id = ''507f191e810c19729de860ea'',
                  link_token = ''q7Hk2mVx9LdPzR4tYw8NcB3sUeJ6a01'',
                  link_expires_at = Some (Datetime 1704672000000000)\<rparr>],
              doc_created_at = Some 1704067200000001\<rparr>)]\<rparr>) \<and>
   utcnow E0 0 + timedelta_days 7 = 1704672000000000"
proof -
  let ?p = "\<lparr>customer_name = ''Ada'', customer_email = ''ada@example.org'',
      items = [\<lparr>product_id = ''507f1f77bcf86cd799439011'', quantity = 2\<rparr>,
               \<lparr>product_id = ''507f191e810c19729de860ea'', quantity = 1\<rparr>]\<rparr>"
  have run: "post_api_orders X0 E0 ?p db0 =
     (Inr (order_returned X0 E0 ?p db0),
      db0\<lparr>order_coll := order_coll db0 @
           [(fresh_oid (map fst (order_coll db0)), order_saved X0 E0 ?p db0)]\<rparr>)"
    by (rule post_api_orders_ok)
       (simp_all add: OrderIn_valid_def CartItem_valid_def lookup_product_def find_one_id_def
          X0_def db0_def example_ids)
  have t: "utcnow E0 0 + timedelta_days 7 = 1704672000000000"
    by (simp add: E0_def timedelta_days_def)
  have links: "order_download_links (order_returned X0 E0 ?p db0) =
             [\<lparr>dl_product_id = ''507f1f77bcf86cd799439011'',
               dl_token = ''q7Hk2mVx9LdPzR4tYw8NcB3sUeJ6a00'',
               dl_expires_at = 1704672000000000\<rparr>,
              \<lparr>dl_product_id = ''507f191e810c19729de860ea'',
               dl_token = ''q7Hk2mVx9LdPzR4tYw8NcB3sUeJ6a01'',
               dl_expires_at = 1704672000000000\<rparr>]"
    using successful_order_paid_one_link_per_item [OF run] t
    by (simp add: order_returned_def upt_rec E0_def hex_char_def)
  have amount: "round2 X0 (cart_total X0 db0 (items ?p)) = 2498 / 100"
    by (simp add: cart_total_def price_read_def lookup_product_def find_one_id_def X0_def
        db0_def example_ids ebook_def draft_def round2_decimal_def)
  show ?thesis
    unfolding run
    using links amount t
    by (simp add: order_returned_def order_saved_def minted_link_def upt_rec db0_def
        fresh_oid_def X0_def hex_str24_def hex_char_def E0_def)
qed

text \<open>
  C3, as amended. When an item's product id parses as an ObjectId but no product has
  that id, and every item before it resolves to an existing product, the operation
  fails with the 404 error naming that product id, and the store is left as it was: no
  order document is created.
\<close>

theorem missing_product_not_found:
  assumes "OrderIn_valid p" and "items p = pre @ it # post"
    and "\<forall>x\<in>set pre. lookup_product X db x \<noteq> None"
    and "ObjectId_of_str X (product_id it) = Some i"
    and "find_one_id (product_coll db) i = None"
  shows "post_api_orders X E p db =
           (Inl (HTTPException 404 (''Product not found: '' @ product_id it)), db)"
  using post_api_orders_stops [OF assms(1-3), of E] assms(4,5)
  by (simp add: PyObjectId_validate_def)

text \<open>
  The e-book, then a product that does not exist, then an id that does not parse: the
  loop stops at the second item.
\<close>

theorem missing_product_not_found_witness:
  "post_api_orders X0 E0
     \<lparr>customer_name = ''Ada'', customer_email = ''ada@example.org'',
      items = [\<lparr>product_id = ''507f1f77bcf86cd799439011'', quantity = 1\<rparr>,
               \<lparr>product_id = ''65a1b2c3d4e5f60718293a4b'', quantity = 3\<rparr>,
               \<lparr>product_id = ''not-an-object-id'', quantity = 1\<rparr>]\<rparr> db0 =
     (Inl (HTTPException 404 ''Product not found: 65a1b2c3d4e5f60718293a4b''), db0)"
  using missing_product_not_found
    [of "\<lparr>customer_name = ''Ada'', customer_email = ''ada@example.org'',
      items = [\<lparr>product_id = ''507f1f77bcf86cd799439011'', quantity = 1\<rparr>,
               \<lparr>product_id = ''65a1b2c3d4e5f60718293a4b'', quantity = 3\<rparr>,
               \<lparr>product_id = ''not-an-object-id'', quantity = 1\<rparr>]\<rparr>"
       "[\<lparr>product_id = ''507f1f77bcf86cd799439011'', quantity = 1\<rparr>]"
       "\<lparr>product_id = ''65a1b2c3d4e5f60718293a4b'', quantity = 3\<rparr>"
       "[\<lparr>product_id = ''not-an-object-id'', quantity = 1\<rparr>]"
       X0 db0 31453467242603790624579205707 E0]
  by (simp add: OrderIn_valid_def CartItem_valid_def lookup_product_def find_one_id_def
      X0_def db0_def example_ids)

text \<open>
  C3 as stated fails: here the second item's id is a well-formed ObjectId of no product,
  and the operation fails with the ValueError of the first item, not with NotFound.
\<close>

theorem missing_product_counterexample:
  "ObjectId_of_str X0 ''65a1b2c3d4e5f60718293a4b'' = Some 31453467242603790624579205707 \<and>
   find_one_id (product_coll db0) 31453467242603790624579205707 = None \<and>
   post_api_orders X0 E0
     \<lparr>customer_name = ''Ada'', customer_email = ''ada@example.org'',
      items = [\<lparr>product_id = ''not-an-object-id'', quantity = 1\<rparr>,
               \<lparr>product_id = ''65a1b2c3d4e5f60718293a4b'', quantity = 1\<rparr>]\<rparr> db0 =
     (Inl (ValueError ''Invalid ObjectId''), db0)"
  by (simp add: post_api_orders_def OrderIn_valid_def CartItem_valid_def create_order_def
      PyObjectId_validate_def find_one_id_def X0_def db0_def example_ids)

text \<open>
  C1, as amended. The request is rejected by validation exactly when some item's
  quantity lies outside 1..50, and then no order document is created. An empty list
  of items and empty customer strings are no ground for rejection.
\<close>

theorem validation_rejects_quantities_only:
  "(fst (post_api_orders X E p db) = Inl RequestValidationError) =
     (\<exists>it\<in>set (items p). quantity it < 1 \<or> 50 < quantity it) \<and>
   ((\<exists>it\<in>set (items p). quantity it < 1 \<or> 50 < quantity it)
      \<longrightarrow> post_api_orders X E p db = (Inl RequestValidationError, db))"
proof -
  have v: "OrderIn_valid p = (\<not> (\<exists>it\<in>set (items p). quantity it < 1 \<or> 50 < quantity it))"
    by (auto simp: OrderIn_valid_def CartItem_valid_def list_all_iff)
  show ?thesis
    using create_order_not_request_validation [of X E p db]
    by (auto simp: post_api_orders_def v)
qed

text \<open>A quantity of 51 is rejected; the request with nothing in it is not.\<close>

theorem validation_rejects_quantities_only_witness:
  "post_api_orders X0 E0
     \<lparr>customer_name = ''Ada'', customer_email = ''ada@example.org'',
      items = [\<lparr>product_id = ''507f1f77bcf86cd799439011'', quantity = 51\<rparr>]\<rparr> db0 =
     (Inl RequestValidationError, db0) \<and>
   fst (post_api_orders X0 E0 \<lparr>customer_name = [], customer_email = [], items = []\<rparr> db0)
     \<noteq> Inl RequestValidationError"
  using validation_rejects_quantities_only
    [of X0 E0 "\<lparr>customer_name = ''Ada'', customer_email = ''ada@example.org'',
      items = [\<lparr>product_id = ''507f1f77bcf86cd799439011'', quantity = 51\<rparr>]\<rparr>" db0]
    validation_rejects_quantities_only
    [of X0 E0 "\<lparr>customer_name = [], customer_email = [], items = []\<rparr>" db0]
  by simp

text \<open>
  C1 as stated fails: the request with no items, an empty name and an empty e-mail
  address succeeds, and an order document is created.
\<close>

theorem empty_request_counterexample:
  "post_api_orders X0 E0 \<lparr>customer_name = [], customer_email = [], items = []\<rparr> db0 =
     (Inr \<lparr>order_id = ''000000000000000000000001'', order_status = ''paid'', order_amount = 0,
           order_items = [], order_customer_name = [], order_customer_email = [],
           order_download_links = [], order_created_at = 1704067200000001\<rparr>,
      db0\<lparr>order_coll :=
        [(1, \<lparr>doc_status = ''paid'', doc_amount = 0, doc_items = [], doc_customer_name = [],
              doc_customer_email = [], doc_download_links = [],
              doc_created_at = Some 1704067200000001\<rparr>)]\<rparr>)"
  by (simp add: post_api_orders_def OrderIn_valid_def create_order_def X0_def E0_def db0_def
      create_document_order_def fresh_oid_def find_one_id_def Order_of_saved_def
      round2_decimal_def hex_str24_def hex_char_def Let_def)

subsection \<open>The link a token locates\<close>

lemma find_concat_step:
  "List.find P (xs @ ys) = (case List.find P xs of None \<Rightarrow> List.find P ys | Some x \<Rightarrow> Some x)"
  by (induction xs) auto


lemma find_Some_holds: "List.find P xs = Some x \<Longrightarrow> P x \<and> x \<in> set xs"
  by (induction xs) (auto split: if_splits)


lemma located_link_coll:
  "(case find_one_token coll token of
      None \<Rightarrow> None
    | Some order_doc \<Rightarrow> List.find (\<lambda>dl. link_token dl = token) (doc_download_links order_doc)) =
   List.find (\<lambda>dl. link_token dl = token) (concat (map (\<lambda>d. doc_download_links (snd d)) coll))"
proof (induction coll)
  case Nil
  then show ?case by (simp add: find_one_token_def)
next
  case (Cons d coll)
  show ?case
  proof (cases "list_ex (\<lambda>dl. link_token dl = token) (doc_download_links (snd d))")
    case True
    then obtain l where "List.find (\<lambda>dl. link_token dl = token) (doc_download_links (snd d)) = Some l"
      by (cases "List.find (\<lambda>dl. link_token dl = token) (doc_download_links (snd d))")
         (auto simp: find_None_iff list_ex_iff)
    with True show ?thesis
      by (simp add: find_one_token_def find_concat_step)
  next
    case False
    then have "List.find (\<lambda>dl. link_token dl = token) (doc_download_links (snd d)) = None"
      by (auto simp: find_None_iff list_ex_iff)
    with False Cons.IH show ?thesis
      by (simp add: find_one_token_def find_concat_step)
  qed
qed


lemma located_link_first:
  "located_link db token = List.find (\<lambda>dl. link_token dl = token) (stored_links db)"
  unfolding located_link_def stored_links_def by (rule located_link_coll)


lemma located_link_None_iff:
  "located_link db token = None \<longleftrightarrow> token \<notin> link_token ` set (stored_links db)"
  by (auto simp: located_link_first find_None_iff)


lemma located_link_token:
  "located_link db token = Some lk \<Longrightarrow> link_token lk = token \<and> lk \<in> set (stored_links db)"
  using find_Some_holds [of "\<lambda>dl. link_token dl = token" "stored_links db" lk]
  by (simp add: located_link_first)


lemma find_only_holder:
  assumes "lk \<in> set xs" and "P lk" and "\<forall>l\<in>set xs. P l \<longrightarrow> l = lk"
  shows "List.find P xs = Some lk"
  using assms
proof (induction xs)
  case Nil
  then show ?case by simp
next
  case (Cons a xs)
  show ?case
  proof (cases "P a")
    case True
    with Cons.prems(3) have "a = lk" by simp
    with True show ?thesis by simp
  next
    case False
    with Cons.prems(1,2) have "lk \<in> set xs" by auto
    moreover from Cons.prems(3) have "\<forall>l\<in>set xs. P l \<longrightarrow> l = lk" by simp
    ultimately have "List.find P xs = Some lk" using Cons.IH Cons.prems(2) by blast
    with False show ?thesis by simp
  qed
qed

lemma located_link_only_holder:
  assumes "lk \<in> set (stored_links db)"
    and "\<forall>l\<in>set (stored_links db). link_token l = link_token lk \<longrightarrow> l = lk"
  shows "located_link db (link_token lk) = Some lk"
  unfolding located_link_first
  by (rule find_only_holder [OF assms(1) _ assms(2)]) simp

text \<open>The query and the loop agree: the branch "Download not found" is never taken.\<close>

lemma find_one_token_None:
  "located_link db token = None \<Longrightarrow> find_one_token (order_coll db) token = None"
proof -
  assume a: "located_link db token = None"
  show ?thesis
  proof (cases "find_one_token (order_coll db) token")
    case None
    then show ?thesis .
  next
    case (Some od)
    then obtain d where "List.find (\<lambda>d. list_ex (\<lambda>dl. link_token dl = token)
        (doc_download_links (snd d))) (order_coll db) = Some d" "snd d = od"
      by (auto simp: find_one_token_def)
    then have "list_ex (\<lambda>dl. link_token dl = token) (doc_download_links od)"
      using find_Some_holds [of "\<lambda>d. list_ex (\<lambda>dl. link_token dl = token)
        (doc_download_links (snd d))" "order_coll db" d] by simp
    then have "List.find (\<lambda>dl. link_token dl = token) (doc_download_links od) \<noteq> None"
      by (auto simp: find_None_iff list_ex_iff)
    with a Some show ?thesis by (simp add: located_link_def)
  qed
qed


lemma resolve_no_link:
  "located_link db token = None \<Longrightarrow>
   resolve_download X E token db = (Inl (HTTPException 404 ''Invalid token''), db)"
  using find_one_token_None [of db token] by (simp add: resolve_download_def)


text \<open>What the handler does once it holds the link.\<close>

lemma resolve_link:
  assumes "located_link db token = Some link"
  shows "resolve_download X E token db =
     (case check_expiry X (utcnow E 0) link of
        Some e \<Rightarrow> (Inl e, db)
      | None \<Rightarrow>
          (case PyObjectId_validate X (link_product_id link) of
             Inl e \<Rightarrow> (Inl e, db)
           | Inr i \<Rightarrow>
               (case find_one_id (product_coll db) i of
                  None \<Rightarrow> (Inl (HTTPException 404 ''Product not found''), db)
                | Some prod_doc \<Rightarrow>
                    (case prod_file_url prod_doc of
                       None \<Rightarrow> (Inl (HTTPException 404 ''File not available for this product''), db)
                     | Some file_url \<Rightarrow>
                         if file_url = [] then
                           (Inl (HTTPException 404 ''File not available for this product''), db)
                         else
                           (Inr \<lparr>resp_product = serialize_doc X i prod_doc,
                                 resp_file_url = file_url,
                                 resp_message = ''Direct your client to this URL to download the file. In production, stream the file from secure storage.''\<rparr>,
                            db)))))"
proof -
  from assms obtain od where
    "find_one_token (order_coll db) token = Some od"
    "List.find (\<lambda>dl. link_token dl = token) (doc_download_links od) = Some link"
    by (auto simp: located_link_def split: option.splits)
  then show ?thesis
    by (simp add: resolve_download_def)
qed



text \<open>The expiry check, by the expiry of the link.\<close>

lemma check_expiry_time:
  "expiry_time X link = Some d \<Longrightarrow>
   check_expiry X now link = (if now > d then Some (HTTPException 410 ''Link expired'') else None)"
  by (auto simp: expiry_time_def check_expiry_def split: option.splits bson_value.splits)

lemma check_expiry_no_time:
  "expiry_time X link = None \<Longrightarrow> check_expiry X now link = check_expiry X now' link"
  by (auto simp: expiry_time_def check_expiry_def split: option.splits bson_value.splits)

text \<open>The handler only reads.\<close>

lemma resolve_snd: "snd (resolve_download X E token db) = db"
proof (cases "located_link db token")
  case None
  then show ?thesis by (simp add: resolve_no_link)
next
  case (Some link)
  show ?thesis
    unfolding resolve_link [OF Some]
    by (simp split: option.splits sum.splits)
qed

text \<open>The links and products of the example store.\<close>

lemma example_links:
  "located_link db1 ''tA3kQ9xZr7LmP2vWc8YbN5dHs1JfG6e0'' = Some link_ebook"
  "located_link db1 ''tB7mW2cYp4RnK9zXq1LvD8bHs6JfG3e5'' = Some link_draft"
  "located_link db1 ''tC5vR8nKd2YpW4mXz9LqB1cHs7JfG0e6'' = Some link_bad_id"
  "located_link db1 ''tD1zX6qLb9KnR3vWm7YpC4dHs2JfG8e5'' = Some link_bad_expiry"
  "located_link db1 ''tE9pL4wQc6ZnV1xRk8YmB2dHs5JfG7e3'' = Some link_gone"
  "located_link db1 ''kZ0aaaaaaaaaaaaaaaaaaaaaaaaaaaaa'' = None"
  by (simp_all add: located_link_def find_one_token_def db1_def db0_def link_ebook_def
      link_draft_def link_bad_id_def link_bad_expiry_def link_gone_def)

lemma example_stored_links:
  "stored_links db1 = [link_ebook, link_draft, link_bad_id, link_bad_expiry, link_gone]"
  by (simp add: stored_links_def db1_def db0_def)

lemma example_products:
  "find_one_id (product_coll db1) 24912482966938930280208240657 = Some ebook"
  "find_one_id (product_coll db1) 24912452986661892666266509546 = Some draft"
  "find_one_id (product_coll db1) 31453467242603790624579205707 = None"
  by (simp_all add: find_one_id_def db1_def db0_def)

subsection \<open>Resolving a token\<close>

text \<open>
  C2, as amended. When the token locates an unexpired link whose product exists but
  has no \<^verbatim>\<open>file_url\<close>, or an empty one, the handler fails with status 404 and the
  detail "File not available for this product". The errors for a token no link holds
  and for a product that is gone have the same status 404; only their details,
  "Invalid token" and "Product not found", tell them from it.
\<close>

theorem file_unavailable_is_404:
  assumes "located_link db token = Some link" and "expiry_time X link = Some d"
    and "utcnow E 0 \<le> d"
    and "ObjectId_of_str X (link_product_id link) = Some i"
    and "find_one_id (product_coll db) i = Some prod_doc"
    and "prod_file_url prod_doc = None \<or> prod_file_url prod_doc = Some []"
  shows "resolve_download X E token db =
           (Inl (HTTPException 404 ''File not available for this product''), db) \<and>
         (\<forall>db2 E2 token2. located_link db2 token2 = None \<longrightarrow>
            resolve_download X E2 token2 db2 = (Inl (HTTPException 404 ''Invalid token''), db2) \<and>
            status_code (HTTPException 404 ''Invalid token'') =
              status_code (HTTPException 404 ''File not available for this product'') \<and>
            fst (resolve_download X E2 token2 db2) \<noteq> fst (resolve_download X E token db)) \<and>
         (\<forall>db2 E2 token2 link2 i2.
            located_link db2 token2 = Some link2 \<and>
            check_expiry X (utcnow E2 0) link2 = None \<and>
            ObjectId_of_str X (link_product_id link2) = Some i2 \<and>
            find_one_id (product_coll db2) i2 = None \<longrightarrow>
            resolve_download X E2 token2 db2 = (Inl (HTTPException 404 ''Product not found''), db2) \<and>
            status_code (HTTPException 404 ''Product not found'') =
              status_code (HTTPException 404 ''File not available for this product'') \<and>
            fst (resolve_download X E2 token2 db2) \<noteq> fst (resolve_download X E token db))"
proof -
  have c: "check_expiry X (utcnow E 0) link = None"
    using check_expiry_time [OF assms(2), of "utcnow E 0"] assms(3) by simp
  have r: "resolve_download X E token db =
             (Inl (HTTPException 404 ''File not available for this product''), db)"
    unfolding resolve_link [OF assms(1)] c
    using assms(4,5,6) by (auto simp: PyObjectId_validate_def)
  have n: "resolve_download X E2 token2 db2 = (Inl (HTTPException 404 ''Invalid token''), db2)"
    if "located_link db2 token2 = None" for db2 :: "'a database" and E2 token2
    using that by (rule resolve_no_link)
  have m: "resolve_download X E2 token2 db2 = (Inl (HTTPException 404 ''Product not found''), db2)"
    if "located_link db2 token2 = Some link2" "check_expiry X (utcnow E2 0) link2 = None"
      "ObjectId_of_str X (link_product_id link2) = Some i2"
      "find_one_id (product_coll db2) i2 = None"
    for db2 :: "'a database" and E2 token2 link2 i2
    unfolding resolve_link [OF that(1)] that(2)
    using that(3,4) by (simp add: PyObjectId_validate_def)
  show ?thesis
    unfolding r using n m by simp
qed

text \<open>
  The link of the draft, which has no file, against a token no link holds and the link
  of a product that is gone.
\<close>

theorem file_unavailable_is_404_witness:
  "resolve_download X0 E0 ''tB7mW2cYp4RnK9zXq1LvD8bHs6JfG3e5'' db1 =
     (Inl (HTTPException 404 ''File not available for this product''), db1) \<and>
   fst (resolve_download X0 E0 ''kZ0aaaaaaaaaaaaaaaaaaaaaaaaaaaaa'' db1) \<noteq>
     fst (resolve_download X0 E0 ''tB7mW2cYp4RnK9zXq1LvD8bHs6JfG3e5'' db1) \<and>
   fst (resolve_download X0 E0 ''tE9pL4wQc6ZnV1xRk8YmB2dHs5JfG7e3'' db1) \<noteq>
     fst (resolve_download X0 E0 ''tB7mW2cYp4RnK9zXq1LvD8bHs6JfG3e5'' db1)"
proof -
  have h1: "located_link db1 ''tB7mW2cYp4RnK9zXq1LvD8bHs6JfG3e5'' = Some link_draft"
    by (rule example_links)
  have h2: "expiry_time X0 link_draft = Some 1704672000000000"
    by (simp add: expiry_time_def link_draft_def)
  have h3: "utcnow E0 0 \<le> 1704672000000000"
    by (simp add: E0_def)
  have h4: "ObjectId_of_str X0 (link_product_id link_draft) = Some 24912452986661892666266509546"
    by (simp add: X0_def link_draft_def example_ids)
  have h5: "find_one_id (product_coll db1) 24912452986661892666266509546 = Some draft"
    by (rule example_products)
  have h6: "prod_file_url draft = None \<or> prod_file_url draft = Some []"
    by (simp add: draft_def)
  have g1: "located_link db1 ''tE9pL4wQc6ZnV1xRk8YmB2dHs5JfG7e3'' = Some link_gone"
    by (rule example_links)
  have g2: "check_expiry X0 (utcnow E0 0) link_gone = None"
    by (simp add: check_expiry_def link_gone_def E0_def)
  have g3: "ObjectId_of_str X0 (link_product_id link_gone) = Some 31453467242603790624579205707"
    by (simp add: X0_def link_gone_def example_ids)
  have g4: "find_one_id (product_coll db1) 31453467242603790624579205707 = None"
    by (rule example_products)
  from file_unavailable_is_404 [OF h1 h2 h3 h4 h5 h6] example_links(6) g1 g2 g3 g4
  show ?thesis by blast
qed

text \<open>
  C2 as stated fails: the error for the missing file is an \<^verbatim>\<open>HTTPException\<close> of
  status 404, as are the errors for the unknown token and for the missing product.
\<close>

theorem file_unavailable_counterexample:
  "resolve_download X0 E0 ''tB7mW2cYp4RnK9zXq1LvD8bHs6JfG3e5'' db1 =
     (Inl (HTTPException 404 ''File not available for this product''), db1) \<and>
   resolve_download X0 E0 ''kZ0aaaaaaaaaaaaaaaaaaaaaaaaaaaaa'' db1 =
     (Inl (HTTPException 404 ''Invalid token''), db1) \<and>
   resolve_download X0 E0 ''tE9pL4wQc6ZnV1xRk8YmB2dHs5JfG7e3'' db1 =
     (Inl (HTTPException 404 ''Product not found''), db1) \<and>
   status_code (HTTPException 404 ''File not available for this product'') = Some 404 \<and>
   status_code (HTTPException 404 ''Invalid token'') = Some 404 \<and>
   status_code (HTTPException 404 ''Product not found'') = Some 404"
proof -
  have a: "resolve_download X0 E0 ''tB7mW2cYp4RnK9zXq1LvD8bHs6JfG3e5'' db1 =
     (Inl (HTTPException 404 ''File not available for this product''), db1)"
    unfolding resolve_link [OF example_links(2)]
    by (simp add: check_expiry_def link_draft_def E0_def PyObjectId_validate_def X0_def
        example_ids example_products draft_def)
  have b: "resolve_download X0 E0 ''kZ0aaaaaaaaaaaaaaaaaaaaaaaaaaaaa'' db1 =
     (Inl (HTTPException 404 ''Invalid token''), db1)"
    by (rule resolve_no_link [OF example_links(6)])
  have c: "resolve_download X0 E0 ''tE9pL4wQc6ZnV1xRk8YmB2dHs5JfG7e3'' db1 =
     (Inl (HTTPException 404 ''Product not found''), db1)"
    unfolding resolve_link [OF example_links(5)]
    by (simp add: check_expiry_def link_gone_def E0_def PyObjectId_validate_def X0_def
        example_ids example_products)
  show ?thesis using a b c by simp
qed

text \<open>
  C5. When a stored link is the only one that holds its token and the request is made
  strictly after the link's expiry, the handler fails with "Link expired", of status
  410; when no stored link holds the token, it fails with "Invalid token", of status
  404.
\<close>

theorem expired_410_unknown_404:
  "(link \<in> set (stored_links db) \<and>
    (\<forall>l\<in>set (stored_links db). link_token l = link_token link \<longrightarrow> l = link) \<and>
    expiry_time X link = Some d \<and> d < utcnow E 0
      \<longrightarrow> resolve_download X E (link_token link) db =
            (Inl (HTTPException 410 ''Link expired''), db)) \<and>
   (token \<notin> link_token ` set (stored_links db)
      \<longrightarrow> resolve_download X E token db = (Inl (HTTPException 404 ''Invalid token''), db)) \<and>
   status_code (HTTPException 410 ''Link expired'') = Some 410 \<and>
   status_code (HTTPException 404 ''Invalid token'') = Some 404"
proof (intro conjI impI)
  assume a: "link \<in> set (stored_links db) \<and>
    (\<forall>l\<in>set (stored_links db). link_token l = link_token link \<longrightarrow> l = link) \<and>
    expiry_time X link = Some d \<and> d < utcnow E 0"
  then have l: "located_link db (link_token link) = Some link"
    using located_link_only_holder [of link db] by blast
  from a have c: "check_expiry X (utcnow E 0) link = Some (HTTPException 410 ''Link expired'')"
    using check_expiry_time [of X link d "utcnow E 0"] by simp
  show "resolve_download X E (link_token link) db = (Inl (HTTPException 410 ''Link expired''), db)"
    unfolding resolve_link [OF l] c by simp
next
  assume "token \<notin> link_token ` set (stored_links db)"
  then have "located_link db token = None"
    by (simp add: located_link_None_iff)
  then show "resolve_download X E token db = (Inl (HTTPException 404 ''Invalid token''), db)"
    by (rule resolve_no_link)
qed simp_all

text \<open>Ten days after the order, the link of the e-book has expired.\<close>

theorem expired_410_unknown_404_witness:
  "resolve_download X0 E_late ''tA3kQ9xZr7LmP2vWc8YbN5dHs1JfG6e0'' db1 =
     (Inl (HTTPException 410 ''Link expired''), db1) \<and>
   resolve_download X0 E_late ''kZ0aaaaaaaaaaaaaaaaaaaaaaaaaaaaa'' db1 =
     (Inl (HTTPException 404 ''Invalid token''), db1)"
proof -
  have h1: "link_ebook \<in> set (stored_links db1)"
    by (simp add: example_stored_links)
  have h2: "\<forall>l\<in>set (stored_links db1). link_token l = link_token link_ebook \<longrightarrow> l = link_ebook"
    by (simp add: example_stored_links link_ebook_def link_draft_def link_bad_id_def
        link_bad_expiry_def link_gone_def)
  have h3: "expiry_time X0 link_ebook = Some 1704672000000000"
    by (simp add: expiry_time_def link_ebook_def)
  have h4: "1704672000000000 < utcnow E_late 0"
    by (simp add: E_late_def)
  have h5: "''kZ0aaaaaaaaaaaaaaaaaaaaaaaaaaaaa'' \<notin> link_token ` set (stored_links db1)"
    by (simp add: example_stored_links link_ebook_def link_draft_def link_bad_id_def
        link_bad_expiry_def link_gone_def)
  have t: "link_token link_ebook = ''tA3kQ9xZr7LmP2vWc8YbN5dHs1JfG6e0''"
    by (simp add: link_ebook_def)
  from expired_410_unknown_404
    [of link_ebook db1 X0 1704672000000000 E_late "''kZ0aaaaaaaaaaaaaaaaaaaaaaaaaaaaa''"]
    h1 h2 h3 h4 h5
  show ?thesis unfolding t by blast
qed

text \<open>
  C7. The handler leaves the store as it found it, and a second request for the same
  token, made against the store the first one left, returns what the first returned,
  when neither is made after the expiry of the link the token locates.
\<close>

theorem resolve_idempotent_read_only:
  "snd (resolve_download X E token db) = db \<and>
   (before_expiry X db token E \<and> before_expiry X db token E'
      \<longrightarrow> resolve_download X E' token (snd (resolve_download X E token db)) =
            resolve_download X E token db)"
proof (intro conjI impI)
  show s: "snd (resolve_download X E token db) = db"
    by (rule resolve_snd)
  assume b: "before_expiry X db token E \<and> before_expiry X db token E'"
  have "resolve_download X E' token db = resolve_download X E token db"
  proof (cases "located_link db token")
    case None
    then show ?thesis by (simp add: resolve_no_link)
  next
    case (Some link)
    have "check_expiry X (utcnow E' 0) link = check_expiry X (utcnow E 0) link"
    proof (cases "expiry_time X link")
      case None
      then show ?thesis by (rule check_expiry_no_time)
    next
      case (Some d)
      with b \<open>located_link db token = Some link\<close>
      have "utcnow E 0 \<le> d" "utcnow E' 0 \<le> d"
        by (simp_all add: before_expiry_def)
      then show ?thesis
        by (simp add: check_expiry_time [OF Some])
    qed
    then show ?thesis
      unfolding resolve_link [OF Some] by simp
  qed
  with s show "resolve_download X E' token (snd (resolve_download X E token db)) =
                 resolve_download X E token db"
    by simp
qed

text \<open>
  The link of the e-book, resolved on the day of the order and again at the very
  instant it expires: both requests return the file of the e-book.
\<close>

theorem resolve_idempotent_read_only_witness:
  "resolve_download X0 E0 ''tA3kQ9xZr7LmP2vWc8YbN5dHs1JfG6e0'' db1 =
     (Inr \<lparr>resp_product =
             \<lparr>pj_id = ''507f1f77bcf86cd799439011'', pj_title = ''Ebook'',
              pj_description = None, pj_price = Some (999 / 100), pj_thumbnail_url = None,
              pj_file_url = Some ''https://x/e.pdf'',
              pj_created_at = Some ''2024-01-01T00:00:00''\<rparr>,
           resp_file_url = ''https://x/e.pdf'',
           resp_message = ''Direct your client to this URL to download the file. In production, stream the file from secure storage.''\<rparr>,
      db1) \<and>
   resolve_download X0 (E0\<lparr>utcnow := \<lambda>k. 1704672000000000\<rparr>)
       ''tA3kQ9xZr7LmP2vWc8YbN5dHs1JfG6e0''
       (snd (resolve_download X0 E0 ''tA3kQ9xZr7LmP2vWc8YbN5dHs1JfG6e0'' db1)) =
     resolve_download X0 E0 ''tA3kQ9xZr7LmP2vWc8YbN5dHs1JfG6e0'' db1"
proof -
  have e: "expiry_time X0 link_ebook = Some 1704672000000000"
    by (simp add: expiry_time_def link_ebook_def)
  have b1: "before_expiry X0 db1 ''tA3kQ9xZr7LmP2vWc8YbN5dHs1JfG6e0'' E0"
    by (simp add: before_expiry_def example_links e E0_def)
  have b2: "before_expiry X0 db1 ''tA3kQ9xZr7LmP2vWc8YbN5dHs1JfG6e0''
              (E0\<lparr>utcnow := \<lambda>k. 1704672000000000\<rparr>)"
    by (simp add: before_expiry_def example_links e)
  have r: "resolve_download X0 E0 ''tA3kQ9xZr7LmP2vWc8YbN5dHs1JfG6e0'' db1 =
     (Inr \<lparr>resp_product =
             \<lparr>pj_id = ''507f1f77bcf86cd799439011'', pj_title = ''Ebook'',
              pj_description = None, pj_price = Some (999 / 100), pj_thumbnail_url = None,
              pj_file_url = Some ''https://x/e.pdf'',
              pj_created_at = Some ''2024-01-01T00:00:00''\<rparr>,
           resp_file_url = ''https://x/e.pdf'',
           resp_message = ''Direct your client to this URL to download the file. In production, stream the file from secure storage.''\<rparr>,
      db1)"
    unfolding resolve_link [OF example_links(1)]
    by (simp add: check_expiry_def link_ebook_def E0_def PyObjectId_validate_def X0_def
        example_ids example_products ebook_def serialize_doc_def hex_str24_def hex_char_def
        isoformat_ex_def iso_table_def)
  from resolve_idempotent_read_only
    [of X0 E0 "''tA3kQ9xZr7LmP2vWc8YbN5dHs1JfG6e0''" db1 "E0\<lparr>utcnow := \<lambda>k. 1704672000000000\<rparr>"]
    b1 b2 r
  show ?thesis by simp
qed

text \<open>
  The expiry check on a link with no usable expiry: it is skipped when the key is
  absent, when the value is null and when it is the empty string; on any other string
  that does not parse, the comparison raises. No such link is ever reported expired.
\<close>

lemma check_expiry_skipped:
  assumes "link_expires_at link = None \<or> link_expires_at link = Some Null \<or>
           (link_expires_at link = Some (Str []) \<and> fromisoformat X [] = None)"
  shows "check_expiry X now link = None"
  using assms by (auto simp: check_expiry_def)

lemma check_expiry_unparseable:
  assumes "link_expires_at link = Some (Str s)" and "fromisoformat X s = None" and "s \<noteq> []"
  shows "check_expiry X now link = Some (TypeError ''str.replace() takes no keyword arguments'')"
  using assms by (simp add: check_expiry_def)

lemma check_expiry_never_expired:
  "expiry_time X link = None \<Longrightarrow>
   check_expiry X now link \<noteq> Some (HTTPException 410 ''Link expired'')"
  by (auto simp: expiry_time_def check_expiry_def split: option.splits bson_value.splits)

text \<open>
  C9 says that a link whose \<^verbatim>\<open>expires_at\<close> is a string that does not parse is
  treated as unexpired. The handler catches the failure of the parse, but then calls
  \<^verbatim>\<open>expires_at.replace(tzinfo=timezone.utc)\<close> on the string: for the stored value
  "next week" the request ends in a TypeError and the file of the e-book is not
  returned.
\<close>

theorem unparseable_expiry_type_error:
  "link_expires_at link_bad_expiry = Some (Str ''next week'') \<and>
   fromisoformat X0 ''next week'' = None \<and>
   resolve_download X0 E0 ''tD1zX6qLb9KnR3vWm7YpC4dHs2JfG8e5'' db1 =
     (Inl (TypeError ''str.replace() takes no keyword arguments''), db1)"
proof -
  have a: "link_expires_at link_bad_expiry = Some (Str ''next week'')"
    by (simp add: link_bad_expiry_def)
  have b: "fromisoformat X0 ''next week'' = None"
    by (simp add: X0_def iso_table_def)
  have c: "check_expiry X0 (utcnow E0 0) link_bad_expiry =
             Some (TypeError ''str.replace() takes no keyword arguments'')"
    by (rule check_expiry_unparseable [OF a b]) simp
  show ?thesis
    unfolding resolve_link [OF example_links(4)] c using a b by simp
qed

text \<open>
  C10, as amended. When an item's product id does not parse as an ObjectId and every
  item before it resolves to an existing product, placing the order raises the
  ValueError "Invalid ObjectId" and leaves the store as it was. When the token
  locates a link that passes the expiry check and whose product id does not parse,
  resolving raises the same ValueError.
\<close>

theorem unparseable_id_value_error:
  "(OrderIn_valid p \<and> items p = pre @ it # post \<and>
    (\<forall>x\<in>set pre. lookup_product X db x \<noteq> None) \<and>
    ObjectId_of_str X (product_id it) = None
      \<longrightarrow> post_api_orders X E p db = (Inl (ValueError ''Invalid ObjectId''), db)) \<and>
   (located_link db token = Some link \<and> check_expiry X (utcnow E 0) link = None \<and>
    ObjectId_of_str X (link_product_id link) = None
      \<longrightarrow> resolve_download X E token db = (Inl (ValueError ''Invalid ObjectId''), db))"
proof (intro conjI impI)
  assume "OrderIn_valid p \<and> items p = pre @ it # post \<and>
    (\<forall>x\<in>set pre. lookup_product X db x \<noteq> None) \<and>
    ObjectId_of_str X (product_id it) = None"
  then show "post_api_orders X E p db = (Inl (ValueError ''Invalid ObjectId''), db)"
    using post_api_orders_stops [of p pre it post X db E]
    by (simp add: PyObjectId_validate_def)
next
  assume a: "located_link db token = Some link \<and> check_expiry X (utcnow E 0) link = None \<and>
    ObjectId_of_str X (link_product_id link) = None"
  then have l: "located_link db token = Some link" by simp
  from a show "resolve_download X E token db = (Inl (ValueError ''Invalid ObjectId''), db)"
    unfolding resolve_link [OF l] by (simp add: PyObjectId_validate_def)
qed

text \<open>
  The e-book followed by an id that does not parse, and the stored link whose product
  id does not parse.
\<close>

theorem unparseable_id_value_error_witness:
  "post_api_orders X0 E0
     \<lparr>customer_name = ''Ada'', customer_email = ''ada@example.org'',
      items = [\<lparr>product_id = ''507f1f77bcf86cd799439011'', quantity = 1\<rparr>,
               \<lparr>product_id = ''not-an-object-id'', quantity = 1\<rparr>]\<rparr> db1 =
     (Inl (ValueError ''Invalid ObjectId''), db1) \<and>
   resolve_download X0 E0 ''tC5vR8nKd2YpW4mXz9LqB1cHs7JfG0e6'' db1 =
     (Inl (ValueError ''Invalid ObjectId''), db1)"
proof -
  let ?p = "\<lparr>customer_name = ''Ada'', customer_email = ''ada@example.org'',
      items = [\<lparr>product_id = ''507f1f77bcf86cd799439011'', quantity = 1\<rparr>,
               \<lparr>product_id = ''not-an-object-id'', quantity = 1\<rparr>]\<rparr>"
  let ?pre = "[\<lparr>product_id = ''507f1f77bcf86cd799439011'', quantity = 1\<rparr>]"
  let ?it = "\<lparr>product_id = ''not-an-object-id'', quantity = 1\<rparr>"
  have h1: "OrderIn_valid ?p"
    by (simp add: OrderIn_valid_def CartItem_valid_def)
  have h2: "items ?p = ?pre @ ?it # []"
    by simp
  have h3: "\<forall>x\<in>set ?pre. lookup_product X0 db1 x \<noteq> None"
    by (simp add: lookup_product_def X0_def example_ids example_products)
  have h4: "ObjectId_of_str X0 (product_id ?it) = None"
    by (simp add: X0_def example_ids)
  have g1: "located_link db1 ''tC5vR8nKd2YpW4mXz9LqB1cHs7JfG0e6'' = Some link_bad_id"
    by (rule example_links)
  have g2: "check_expiry X0 (utcnow E0 0) link_bad_id = None"
    by (simp add: check_expiry_def link_bad_id_def E0_def)
  have g3: "ObjectId_of_str X0 (link_product_id link_bad_id) = None"
    by (simp add: X0_def link_bad_id_def example_ids)
  from unparseable_id_value_error
    [of ?p ?pre ?it "[]" X0 db1 E0 "''tC5vR8nKd2YpW4mXz9LqB1cHs7JfG0e6''" link_bad_id]
    h1 h2 h3 h4 g1 g2 g3
  show ?thesis by blast
qed

text \<open>
  C10 as stated fails: the second item's id does not parse, but the first item's product
  does not exist, and the operation fails with the 404 of the first item.
\<close>

theorem unparseable_id_counterexample:
  "ObjectId_of_str X0 ''not-an-object-id'' = None \<and>
   post_api_orders X0 E0
     \<lparr>customer_name = ''Ada'', customer_email = ''ada@example.org'',
      items = [\<lparr>product_id = ''65a1b2c3d4e5f60718293a4b'', quantity = 1\<rparr>,
               \<lparr>product_id = ''not-an-object-id'', quantity = 1\<rparr>]\<rparr> db0 =
     (Inl (HTTPException 404 ''Product not found: 65a1b2c3d4e5f60718293a4b''), db0)"
  by (simp add: post_api_orders_def OrderIn_valid_def CartItem_valid_def create_order_def
      PyObjectId_validate_def find_one_id_def X0_def db0_def example_ids)

end
